theory Spec2Isabelle
  imports Complex_Main "HOL-Library.Monad_Syntax"
begin

section \<open>Medicinal leaf identification: the inference pipeline of model_loader.py\<close>

text \<open>
  The development embeds \<^verbatim>\<open>src/app/model_loader.py\<close> (the module state \<^verbatim>\<open>_models\<close> and
  \<^verbatim>\<open>CLASS_MAP\<close>, \<^verbatim>\<open>predict_image\<close>, \<^verbatim>\<open>preprocess_image_if_available\<close>) and the two
  calls that \<^verbatim>\<open>upload\<close> and \<^verbatim>\<open>predict_base64\<close> of \<^verbatim>\<open>src/app/app.py\<close> make to them.

  Conventions of the embedding.
  \<^item> A float32 number is the real number it denotes, and every float32 operation of the
    source rounds its exact result to float32 (\<open>round32\<close>: to nearest, ties to even). The
    model has no \<^verbatim>\<open>nan\<close> and no \<^verbatim>\<open>inf\<close>: what it says about numbers holds where no operand
    is one of them and no result overflows, as for vectors with entries between 0 and 1.
  \<^item> A Python exception is a value: \<open>Inl e\<close> of a result \<open>error + 'a\<close> where the source lets
    it escape, \<open>None\<close> of an option for a library call whose exception the source catches.
  \<^item> What TensorFlow, rembg and OpenCV compute is not in the repository: their functions are
    fields of records, and the theorems hold for every value of these fields.
  \<^item> The image file at \<^verbatim>\<open>img_path\<close> exists (both callers save it just before) and can be
    read. Writing it can fail: \<^verbatim>\<open>open(img_path, "wb")\<close> may raise and leave the file as it
    was, \<^verbatim>\<open>o.write\<close> may raise after the file was emptied, and \<^verbatim>\<open>cv2.imwrite\<close> may raise
    or return False.
\<close>

subsection \<open>Exceptions\<close>

datatype error =
    RuntimeError string
  | ValueError
  | TypeError
  | AttributeError
  | ImageLoadError

text \<open>The two messages of \<^verbatim>\<open>predict_image\<close> (lines 43 and 57).\<close>

definition no_models_msg :: string where
  "no_models_msg =
     ''No models loaded in '' @ [CHR 0x27] @ ''models/'' @ [CHR 0x27] @ '' directory. Add your .h5 files.''"

definition no_predictions_msg :: string where
  "no_predictions_msg = ''No predictions produced by models.''"

subsection \<open>float32 arithmetic\<close>

text \<open>
  IEEE 754 binary32 has a significand of 24 bits and a smallest spacing of \<open>2 ^ -149\<close>.
  \<open>rne\<close> rounds a real to the nearest integer, a tie to the even one. \<open>round32_mag\<close>
  rounds a non-negative real: \<open>y\<close> is the number in units of \<open>2 ^ -149\<close>, and \<open>2 ^ n\<close>
  of these units is the spacing of the float32 numbers around it (\<open>n = 0\<close> for the
  subnormal numbers and the first binade).
\<close>

definition rne :: "real \<Rightarrow> int" where
  "rne z =
     (let f = \<lfloor>z\<rfloor>; d = z - of_int f
      in if d < 1 / 2 then f else if 1 / 2 < d then f + 1 else if even f then f else f + 1)"

fun bit_length :: "nat \<Rightarrow> nat" where
  "bit_length n = (if n = 0 then 0 else Suc (bit_length (n div 2)))"

definition round32_mag :: "real \<Rightarrow> real" where
  "round32_mag x =
     (let y = x * 2 ^ 149;
          n = bit_length (nat \<lfloor>y\<rfloor>) - 24
      in of_int (rne (y / 2 ^ n)) * 2 ^ n / 2 ^ 149)"

definition round32 :: "real \<Rightarrow> real" where
  "round32 x = (if x < 0 then - round32_mag (- x) else round32_mag x)"

definition is_float32 :: "real \<Rightarrow> bool" where
  "is_float32 x = (round32 x = x \<and> \<bar>x\<bar> < 2 ^ 128)"

subsection \<open>numpy on float32 arrays\<close>

text \<open>
  \<^verbatim>\<open>np.add.reduce\<close> along axis 0 adds the rows one after the other into the result, in
  float32: one column of the batch is summed from its first value on, each addition
  rounded.
\<close>

fun sum32 :: "real list \<Rightarrow> real" where
  "sum32 [] = 0"
| "sum32 (v # vs) = foldl (\<lambda>acc w. round32 (acc + w)) v vs"

text \<open>
  \<^verbatim>\<open>np.mean(preds, axis=0)\<close> on a list of one-dimensional float32 arrays: a \<^verbatim>\<open>ValueError\<close>
  when the arrays differ in length, otherwise at every position the float32 sum of the
  arrays' values there, divided in float32 by the number of arrays. \<^verbatim>\<open>predict_image\<close>
  never calls it on the empty list (line 56 raises before); numpy returns \<^verbatim>\<open>nan\<close> there,
  which this model does not have.
\<close>

definition np_mean_axis0 :: "real list list \<Rightarrow> error + real list" where
  "np_mean_axis0 preds =
     (case preds of
        [] \<Rightarrow> Inl ValueError
      | p # ps \<Rightarrow>
          if list_all (\<lambda>q. length q = length p) ps
          then Inr (map (\<lambda>j. round32 (sum32 (map (\<lambda>q. q ! j) preds) / real (length preds)))
                        [0..<length p])
          else Inl ValueError)"

text \<open>
  \<^verbatim>\<open>np.argmax\<close> scans from the left and keeps the first position of the largest value:
  the running best is replaced only by a strictly larger value. On an empty array it
  raises \<^verbatim>\<open>ValueError\<close>, as \<^verbatim>\<open>np.max\<close> does.
\<close>

fun argmax_scan :: "real list \<Rightarrow> nat \<Rightarrow> nat \<Rightarrow> real \<Rightarrow> nat" where
  "argmax_scan [] i best bv = best"
| "argmax_scan (x # xs) i best bv =
     (if bv < x then argmax_scan xs (Suc i) i x else argmax_scan xs (Suc i) best bv)"

definition np_argmax :: "real list \<Rightarrow> error + nat" where
  "np_argmax a = (case a of [] \<Rightarrow> Inl ValueError | x # xs \<Rightarrow> Inr (argmax_scan xs 1 0 x))"

definition np_max :: "real list \<Rightarrow> error + real" where
  "np_max a = (case a of [] \<Rightarrow> Inl ValueError | x # xs \<Rightarrow> Inr (fold max xs x))"

subsection \<open>The class map: \<^verbatim>\<open>class_indices.json\<close> and \<^verbatim>\<open>CLASS_MAP\<close> (lines 24 to 34)\<close>

text \<open>
  What \<^verbatim>\<open>json.load\<close> returns. An object is the list of its items in the order of the
  resulting \<^verbatim>\<open>dict\<close>.
\<close>

datatype json =
    JNull
  | JBool bool
  | JInt int
  | JFloat real
  | JStr string
  | JArr "json list"
  | JObj "(string \<times> json) list"

text \<open>
  Python's \<^verbatim>\<open>int(v)\<close>. What it makes of a string is Python's own parser, taken as the
  parameter \<open>int_of_str\<close> (\<open>None\<close>: \<^verbatim>\<open>ValueError\<close>). A float is truncated towards zero.
\<close>

fun py_int :: "(string \<Rightarrow> int option) \<Rightarrow> json \<Rightarrow> error + int" where
  "py_int int_of_str JNull = Inl TypeError"
| "py_int int_of_str (JBool b) = Inr (if b then 1 else 0)"
| "py_int int_of_str (JInt n) = Inr n"
| "py_int int_of_str (JFloat r) = Inr (if 0 \<le> r then \<lfloor>r\<rfloor> else \<lceil>r\<rceil>)"
| "py_int int_of_str (JStr s) = (case int_of_str s of None \<Rightarrow> Inl ValueError | Some n \<Rightarrow> Inr n)"
| "py_int int_of_str (JArr xs) = Inl TypeError"
| "py_int int_of_str (JObj kvs) = Inl TypeError"

text \<open>\<^verbatim>\<open>.items()\<close> exists on a \<^verbatim>\<open>dict\<close> only.\<close>

fun py_items :: "json \<Rightarrow> error + (string \<times> json) list" where
  "py_items (JObj kvs) = Inr kvs"
| "py_items j = Inl AttributeError"

text \<open>The comprehension \<^verbatim>\<open>{k: int(v) for k, v in CLASS_MAP.items()}\<close> of line 32.\<close>

fun int_values :: "(string \<Rightarrow> int option) \<Rightarrow> (string \<times> json) list \<Rightarrow> error + (string \<times> json) list" where
  "int_values int_of_str [] = Inr []"
| "int_values int_of_str ((k, v) # kvs) =
     (case py_int int_of_str v of
        Inl e \<Rightarrow> Inl e
      | Inr n \<Rightarrow> (case int_values int_of_str kvs of
                   Inl e \<Rightarrow> Inl e
                 | Inr rest \<Rightarrow> Inr ((k, JInt n) # rest)))"

datatype class_map_file = Missing | Unparsable | Parsed json

text \<open>
  Lines 25 to 34. \<^verbatim>\<open>CLASS_MAP\<close> starts as \<^verbatim>\<open>{}\<close>. Line 30 binds it to the parsed document;
  line 32 binds it again to the converted dictionary. An exception of line 32 is caught by
  line 33, and \<^verbatim>\<open>CLASS_MAP\<close> keeps the value line 30 gave it.
\<close>

definition load_class_map :: "(string \<Rightarrow> int option) \<Rightarrow> class_map_file \<Rightarrow> json" where
  "load_class_map int_of_str f =
     (case f of
        Missing \<Rightarrow> JObj []
      | Unparsable \<Rightarrow> JObj []
      | Parsed doc \<Rightarrow>
          (case py_items doc of
             Inl e \<Rightarrow> doc
           | Inr kvs \<Rightarrow> (case int_values int_of_str kvs of
                          Inl e \<Rightarrow> doc
                        | Inr converted \<Rightarrow> JObj converted)))"

subsection \<open>Label resolution (lines 63 to 68)\<close>

text \<open>Python's truth value of an object, for \<^verbatim>\<open>if CLASS_MAP:\<close>.\<close>

fun py_truthy :: "json \<Rightarrow> bool" where
  "py_truthy JNull = False"
| "py_truthy (JBool b) = b"
| "py_truthy (JInt n) = (n \<noteq> 0)"
| "py_truthy (JFloat r) = (r \<noteq> 0)"
| "py_truthy (JStr s) = (s \<noteq> [])"
| "py_truthy (JArr xs) = (xs \<noteq> [])"
| "py_truthy (JObj kvs) = (kvs \<noteq> [])"

text \<open>
  The keys of a \<^verbatim>\<open>dict\<close>: equal objects are one key, and \<^verbatim>\<open>True == 1 == 1.0\<close>.
  Lists and dicts cannot be keys (\<^verbatim>\<open>TypeError: unhashable type\<close>).
\<close>

datatype pykey = KNone | KNum real | KStr string

fun py_hash :: "json \<Rightarrow> pykey option" where
  "py_hash JNull = Some KNone"
| "py_hash (JBool b) = Some (KNum (if b then 1 else 0))"
| "py_hash (JInt n) = Some (KNum (real_of_int n))"
| "py_hash (JFloat r) = Some (KNum r)"
| "py_hash (JStr s) = Some (KStr s)"
| "py_hash (JArr xs) = None"
| "py_hash (JObj kvs) = None"

text \<open>
  \<^verbatim>\<open>inv = {v: k for k, v in CLASS_MAP.items()}\<close>: the items are visited in order and a later
  item replaces an earlier one with an equal key.
\<close>

fun build_inv :: "(string \<times> json) list \<Rightarrow> (pykey \<rightharpoonup> string) \<Rightarrow> error + (pykey \<rightharpoonup> string)" where
  "build_inv [] d = Inr d"
| "build_inv ((k, v) # kvs) d =
     (case py_hash v of
        None \<Rightarrow> Inl TypeError
      | Some h \<Rightarrow> build_inv kvs (d(h \<mapsto> k)))"

text \<open>\<^verbatim>\<open>str(idx)\<close> of a non-negative \<^verbatim>\<open>int\<close>: its decimal digits.\<close>

definition digit_char :: "nat \<Rightarrow> char" where
  "digit_char d = ''0123456789'' ! d"

fun py_str :: "nat \<Rightarrow> string" where
  "py_str n = (if n < 10 then [digit_char n] else py_str (n div 10) @ [digit_char (n mod 10)])"

definition resolve_label :: "json \<Rightarrow> nat \<Rightarrow> error + string" where
  "resolve_label CLASS_MAP idx =
     (if py_truthy CLASS_MAP then
        (case py_items CLASS_MAP of
           Inl e \<Rightarrow> Inl e
         | Inr kvs \<Rightarrow>
             (case build_inv kvs Map.empty of
                Inl e \<Rightarrow> Inl e
              | Inr d \<Rightarrow>
                  Inr (case d (KNum (real idx)) of Some k \<Rightarrow> k | None \<Rightarrow> py_str idx)))
      else Inr (py_str idx))"

subsection \<open>\<^verbatim>\<open>predict_image\<close> (lines 37 to 69)\<close>

type_synonym bytes = "nat list"

text \<open>
  A loaded Keras model: \<^verbatim>\<open>m.predict(x)\<close> takes a batch of samples and returns a batch of
  output vectors, or raises (\<open>None\<close>).
\<close>

type_synonym classifier = "real list list \<Rightarrow> real list list option"

text \<open>
  The loop of lines 49 to 55. Everything inside the \<^verbatim>\<open>try\<close> is caught: a model that
  raises, and \<^verbatim>\<open>p[0]\<close> on an empty batch (\<^verbatim>\<open>IndexError\<close>), leave \<^verbatim>\<open>preds\<close> as it was.
\<close>

fun preds_loop :: "classifier list \<Rightarrow> real list list \<Rightarrow> real list list" where
  "preds_loop [] x = []"
| "preds_loop (m # ms) x =
     (case m x of
        None \<Rightarrow> preds_loop ms x
      | Some [] \<Rightarrow> preds_loop ms x
      | Some (p0 # rest) \<Rightarrow> p0 # preds_loop ms x)"

text \<open>Lines 59 to 69: from the collected vectors to the label and the confidence.\<close>

definition ensemble_result :: "json \<Rightarrow> real list list \<Rightarrow> error + (string \<times> real)" where
  "ensemble_result CLASS_MAP preds =
     (case np_mean_axis0 preds of
        Inl e \<Rightarrow> Inl e
      | Inr avg \<Rightarrow>
          (case np_argmax avg of
             Inl e \<Rightarrow> Inl e
           | Inr idx \<Rightarrow>
               (case np_max avg of
                  Inl e \<Rightarrow> Inl e
                | Inr confidence \<Rightarrow>
                    (case resolve_label CLASS_MAP idx of
                       Inl e \<Rightarrow> Inl e
                     | Inr label \<Rightarrow> Inr (label, confidence)))))"

text \<open>
  \<^verbatim>\<open>image.load_img(img_path, target_size=(224, 224))\<close> decodes the stored file to 8-bit
  channel values, or raises (\<open>None\<close>); it is the parameter \<open>load_img\<close>. Lines 46 and 47
  divide the values by 255 in float32 and make a batch of one sample.
\<close>

definition predict_image ::
  "(bytes \<Rightarrow> nat \<times> nat \<Rightarrow> nat list option) \<Rightarrow> classifier list \<Rightarrow> json \<Rightarrow> bytes
     \<Rightarrow> error + (string \<times> real)" where
  "predict_image load_img models CLASS_MAP file =
     (if models = [] then Inl (RuntimeError no_models_msg)
      else
        (case load_img file (224, 224) of
           None \<Rightarrow> Inl ImageLoadError
         | Some img \<Rightarrow>
             (let x = [map (\<lambda>v. round32 (real v / 255)) img];
                  preds = preds_loop models x
              in if preds = [] then Inl (RuntimeError no_predictions_msg)
                 else ensemble_result CLASS_MAP preds)))"

subsection \<open>\<^verbatim>\<open>preprocess_image_if_available\<close> (lines 72 to 107)\<close>

text \<open>
  The stored image file: its content, and how many writes of it have completed since the
  request began (the count is bookkeeping, to tell a file that was written from one whose
  content merely is the same).
\<close>

record fs =
  content :: bytes
  writes :: nat

definition write_file :: "fs \<Rightarrow> bytes \<Rightarrow> fs" where
  "write_file f new = f\<lparr>content := new, writes := Suc (writes f)\<rparr>"

text \<open>
  A decoded image is the list of its rows, a row the list of its pixels; a contour is a
  list of points.
\<close>

type_synonym bgr = "nat \<times> nat \<times> nat"
type_synonym 'p image = "'p list list"
type_synonym contour = "(nat \<times> nat) list"

text \<open>
  \<^verbatim>\<open>cv2.imwrite(img_path, crop)\<close> raises, or returns False and stores nothing, or returns
  True and stores the encoded image. (When it returns False OpenCV may also have removed
  the file; this model keeps the file then.)
\<close>

datatype imwrite_result = ImwriteRaises | ImwriteFalse | ImwriteTrue bytes

text \<open>
  The functions of OpenCV that the fallback calls. Each of the others returns \<open>None\<close> when
  it raises; \<open>imread\<close> also when it returns Python's \<^verbatim>\<open>None\<close> for a file it cannot decode.
\<close>

record cv2_api =
  imread :: "bytes \<Rightarrow> bgr image option"
  cvtColor :: "bgr image \<Rightarrow> nat \<Rightarrow> nat image option"
  GaussianBlur :: "nat image \<Rightarrow> nat \<times> nat \<Rightarrow> real \<Rightarrow> nat image option"
  threshold :: "nat image \<Rightarrow> real \<Rightarrow> real \<Rightarrow> nat \<Rightarrow> (real \<times> nat image) option"
  findContours :: "nat image \<Rightarrow> nat \<Rightarrow> nat \<Rightarrow> (contour list \<times> int list list) option"
  contourArea :: "contour \<Rightarrow> real option"
  boundingRect :: "contour \<Rightarrow> (nat \<times> nat \<times> nat \<times> nat) option"
  resize :: "bgr image \<Rightarrow> nat \<times> nat \<Rightarrow> bgr image option"
  imwrite :: "bgr image \<Rightarrow> imwrite_result"

text \<open>OpenCV's constants, by their values in \<^verbatim>\<open>cv2\<close>.\<close>

definition COLOR_BGR2GRAY :: nat where "COLOR_BGR2GRAY = 6"
definition THRESH_BINARY :: nat where "THRESH_BINARY = 0"
definition THRESH_OTSU :: nat where "THRESH_OTSU = 8"
definition RETR_EXTERNAL :: nat where "RETR_EXTERNAL = 0"
definition CHAIN_APPROX_SIMPLE :: nat where "CHAIN_APPROX_SIMPLE = 2"

text \<open>
  Lines 83 and 84, \<^verbatim>\<open>with open(img_path, "wb") as o: o.write(output)\<close>: the write
  completes; or \<^verbatim>\<open>open\<close> raises and the file is as it was; or \<^verbatim>\<open>open\<close> has emptied the
  file and \<^verbatim>\<open>o.write\<close> raises, leaving in it the bytes given (none, or a part of the
  output).
\<close>

datatype write_result = WriteDone | OpenRaises | WriteRaises bytes

text \<open>
  The runtime environment: \<open>rembg_remove\<close> is \<open>None\<close> when \<^verbatim>\<open>from rembg import remove\<close>
  fails, \<open>cv2\<close> is \<open>None\<close> when \<^verbatim>\<open>import cv2\<close> fails, \<open>fs_write\<close> says what becomes of
  the write of lines 83 and 84.
\<close>

record runtime =
  rembg_remove :: "(bytes \<Rightarrow> bytes option) option"
  fs_write :: "bytes \<Rightarrow> write_result"
  cv2 :: "cv2_api option"
  load_img :: "bytes \<Rightarrow> nat \<times> nat \<Rightarrow> nat list option"

text \<open>
  Python's \<^verbatim>\<open>max(contours, key=cv2.contourArea)\<close>: the keys are computed from left to
  right, and the first element with the largest key is kept.
\<close>

fun max_key_scan :: "('a \<Rightarrow> real option) \<Rightarrow> 'a list \<Rightarrow> 'a \<Rightarrow> real \<Rightarrow> 'a option" where
  "max_key_scan key [] best bv = Some best"
| "max_key_scan key (c # cs) best bv =
     (case key c of
        None \<Rightarrow> None
      | Some a \<Rightarrow> if bv < a then max_key_scan key cs c a else max_key_scan key cs best bv)"

fun py_max_key :: "('a \<Rightarrow> real option) \<Rightarrow> 'a list \<Rightarrow> 'a option" where
  "py_max_key key [] = None"
| "py_max_key key (c # cs) =
     (case key c of None \<Rightarrow> None | Some a \<Rightarrow> max_key_scan key cs c a)"

text \<open>The slice \<^verbatim>\<open>img[y:y+h, x:x+w]\<close> of line 102 (all four numbers are non-negative).\<close>

definition py_slice :: "'a list \<Rightarrow> nat \<Rightarrow> nat \<Rightarrow> 'a list" where
  "py_slice xs lo hi = take (hi - lo) (drop lo xs)"

definition crop_box :: "'p image \<Rightarrow> nat \<Rightarrow> nat \<Rightarrow> nat \<Rightarrow> nat \<Rightarrow> 'p image" where
  "crop_box img x y w h = map (\<lambda>row. py_slice row x (x + w)) (py_slice img y (y + h))"

text \<open>
  The \<^verbatim>\<open>try\<close> block, lines 78 to 85: \<open>Inr\<close> of the new file state when line 85 returns
  True, \<open>Inl\<close> of the file state when an exception reaches line 86.
\<close>

definition rembg_primary :: "runtime \<Rightarrow> fs \<Rightarrow> fs + fs" where
  "rembg_primary rt f =
     (case rembg_remove rt of
        None \<Rightarrow> Inl f
      | Some remove \<Rightarrow>
          (let input_bytes = content f
           in case remove input_bytes of
                None \<Rightarrow> Inl f
              | Some output \<Rightarrow>
                  (case fs_write rt output of
                     OpenRaises \<Rightarrow> Inl f
                   | WriteRaises left \<Rightarrow> Inl (f\<lparr>content := left\<rparr>)
                   | WriteDone \<Rightarrow> Inr (write_file f output))))"

text \<open>Lines 94 to 97, from the decoded image to the contours.\<close>

definition find_leaf_contours :: "cv2_api \<Rightarrow> bgr image \<Rightarrow> contour list option" where
  "find_leaf_contours cv img =
     do {
       gray \<leftarrow> cvtColor cv img COLOR_BGR2GRAY;
       blur \<leftarrow> GaussianBlur cv gray (5, 5) 0;
       (t, th) \<leftarrow> threshold cv blur 0 255 (THRESH_BINARY + THRESH_OTSU);
       (contours, hierarchy) \<leftarrow> findContours cv th RETR_EXTERNAL CHAIN_APPROX_SIMPLE;
       Some contours
     }"

text \<open>Lines 100 to 103, from the contours to the resized crop.\<close>

definition crop_largest :: "cv2_api \<Rightarrow> bgr image \<Rightarrow> contour list \<Rightarrow> bgr image option" where
  "crop_largest cv img contours =
     do {
       c \<leftarrow> py_max_key (contourArea cv) contours;
       (x, y, w, h) \<leftarrow> boundingRect cv c;
       resize cv (crop_box img x y w h) (224, 224)
     }"

text \<open>
  The \<^verbatim>\<open>except\<close> block, lines 86 to 107: the value returned and the file state. Line 104
  drops what \<^verbatim>\<open>cv2.imwrite\<close> returns, and line 105 returns True.
\<close>

definition cv2_fallback :: "runtime \<Rightarrow> fs \<Rightarrow> bool \<times> fs" where
  "cv2_fallback rt f =
     (case cv2 rt of
        None \<Rightarrow> (False, f)
      | Some cv \<Rightarrow>
          (case imread cv (content f) of
             None \<Rightarrow> (False, f)
           | Some img \<Rightarrow>
               (case find_leaf_contours cv img of
                  None \<Rightarrow> (False, f)
                | Some contours \<Rightarrow>
                    if contours = [] then (False, f)
                    else
                      (case crop_largest cv img contours of
                         None \<Rightarrow> (False, f)
                       | Some crop \<Rightarrow>
                           (case imwrite cv crop of
                              ImwriteRaises \<Rightarrow> (False, f)
                            | ImwriteFalse \<Rightarrow> (True, f)
                            | ImwriteTrue encoded \<Rightarrow> (True, write_file f encoded))))))"

text \<open>The fallback works on the file as the \<^verbatim>\<open>try\<close> block left it.\<close>

definition preprocess_image_if_available :: "runtime \<Rightarrow> fs \<Rightarrow> bool \<times> fs" where
  "preprocess_image_if_available rt f =
     (case rembg_primary rt f of
        Inr f' \<Rightarrow> (True, f')
      | Inl f0 \<Rightarrow> cv2_fallback rt f0)"

subsection \<open>The callers in app.py (lines 157 to 168 and 222 to 231)\<close>

text \<open>
  \<^verbatim>\<open>upload\<close> and \<^verbatim>\<open>predict_base64\<close> call \<^verbatim>\<open>preprocess_image_if_available\<close> inside a
  \<^verbatim>\<open>try\<close>, drop what it returns, and call \<^verbatim>\<open>predict_image\<close> on the same path. The
  result here is the final file state and what \<^verbatim>\<open>predict_image\<close> returned or raised.
\<close>

definition upload_predict ::
  "runtime \<Rightarrow> classifier list \<Rightarrow> json \<Rightarrow> fs \<Rightarrow> fs \<times> (error + (string \<times> real))" where
  "upload_predict rt models CLASS_MAP f =
     (let (changed, f') = preprocess_image_if_available rt f
      in (f', predict_image (load_img rt) models CLASS_MAP (content f')))"

subsection \<open>Predicates used in the statements\<close>


text \<open>
  \<open>converted_map\<close>: \<^verbatim>\<open>CLASS_MAP\<close> is a \<^verbatim>\<open>dict\<close> whose values are all \<^verbatim>\<open>int\<close>s, which is
  what it is before line 30 and after line 32. \<open>prob_vector\<close>: the ProbabilityVector of the
  specification, non-negative float32 values that sum to 1. \<open>unit_vector\<close>: float32
  values between 0 and 1.
\<close>

fun is_JInt :: "json \<Rightarrow> bool" where
  "is_JInt (JInt n) = True"
| "is_JInt j = False"

definition converted_map :: "json \<Rightarrow> bool" where
  "converted_map cm = (case cm of JObj kvs \<Rightarrow> list_all (\<lambda>(k, v). is_JInt v) kvs | _ \<Rightarrow> False)"

definition prob_vector :: "real list \<Rightarrow> bool" where
  "prob_vector p = (list_all (\<lambda>v. is_float32 v \<and> 0 \<le> v) p \<and> sum_list p = 1)"

definition unit_vector :: "real list \<Rightarrow> bool" where
  "unit_vector p = list_all (\<lambda>v. is_float32 v \<and> 0 \<le> v \<and> v \<le> 1) p"

subsection \<open>An environment to run the definitions in\<close>

text \<open>
  A small OpenCV for the examples: \<open>imread\<close> decodes a file whose first byte is \<open>v\<close> to
  two rows of one black pixel and two pixels of value \<open>v\<close>, and does not decode an empty
  file; the other functions accept only the arguments that the source passes; a
  thresholded image that is all black has no contour. rembg is not installed in
  \<open>example_runtime\<close>. In \<open>disk_full_runtime\<close> rembg is installed and the write of its
  result raises after the file was emptied. In \<open>read_only_runtime\<close> \<^verbatim>\<open>cv2.imwrite\<close> returns
  False. \<open>const_classifier p\<close> is a model that answers every batch with the one vector
  \<open>p\<close>, \<open>failing_classifier\<close> one that raises.
\<close>

definition example_cv2 :: cv2_api where
  "example_cv2 =
     \<lparr> imread = (\<lambda>b. case b of
                      [] \<Rightarrow> None
                    | v # rest \<Rightarrow> Some [[(0, 0, 0), (v, v, v), (v, v, v)],
                                       [(0, 0, 0), (v, v, v), (v, v, v)]]),
       cvtColor = (\<lambda>img code. if code = 6 then Some (map (map fst) img) else None),
       GaussianBlur = (\<lambda>gray ksize sigma. if ksize = (5, 5) \<and> sigma = 0 then Some gray else None),
       threshold = (\<lambda>blur thresh maxval flags.
                      if flags = 8 then Some (0, map (map (\<lambda>v. if 0 < v then 255 else 0)) blur)
                      else None),
       findContours = (\<lambda>th mode method.
                         if mode = 0 \<and> method = 2
                         then Some (if list_all (list_all (\<lambda>v. v = 0)) th then []
                                    else [[(1, 0)], [(1, 0), (2, 0), (2, 1), (1, 1)]], [])
                         else None),
       contourArea = (\<lambda>c. Some (real (length c))),
       boundingRect = (\<lambda>c. Some (1, 0, 2, 2)),
       resize = (\<lambda>img size. if size = (224, 224) then Some img else None),
       imwrite = (\<lambda>img. ImwriteTrue (map length img)) \<rparr>"

definition example_runtime :: runtime where
  "example_runtime =
     \<lparr> rembg_remove = None,
       fs_write = (\<lambda>new. WriteDone),
       cv2 = Some example_cv2,
       load_img = (\<lambda>b size. if size = (224, 224) \<and> b \<noteq> [] then Some b else None) \<rparr>"

definition disk_full_runtime :: runtime where
  "disk_full_runtime =
     example_runtime \<lparr> rembg_remove := Some (\<lambda>b. Some (0 # b)),
                       fs_write := (\<lambda>new. WriteRaises []) \<rparr>"

definition read_only_runtime :: runtime where
  "read_only_runtime =
     example_runtime \<lparr> cv2 := Some (example_cv2 \<lparr> imwrite := (\<lambda>img. ImwriteFalse) \<rparr>) \<rparr>"

text \<open>
  Two probability vectors of float32 numbers whose float32 mean ties at positions 0 and 1
  while their exact mean is larger at position 1, and the float32 numbers nearest to the
  vectors \<open>[0.9, 0.1]\<close> and \<open>[0.3, 0.7]\<close> of the specification's scenario.
\<close>

definition tie_vector_a :: "real list" where
  "tie_vector_a = [1 / 4, 1 / 4 + 1 / 2 ^ 25, 1 / 8, 1 / 8, 1 / 4 - 1 / 2 ^ 25]"

definition tie_vector_b :: "real list" where
  "tie_vector_b = [1 / 4, 1 / 4, 1 / 8, 1 / 8, 1 / 4]"

definition scenario_a :: "real list" where
  "scenario_a = [7549747 / 2 ^ 23, 13421773 / 2 ^ 27]"

definition scenario_b :: "real list" where
  "scenario_b = [5033165 / 2 ^ 24, 11744051 / 2 ^ 24]"

definition const_classifier :: "real list \<Rightarrow> classifier" where
  "const_classifier p = (\<lambda>x. Some [p])"

definition failing_classifier :: classifier where
  "failing_classifier = (\<lambda>x. None)"

section \<open>Properties\<close>

subsection \<open>Rounding to float32\<close>

declare bit_length.simps [simp del]

lemma rne_of_int: "rne (of_int k) = k"
  by (simp add: rne_def)




lemma bit_length_0 [simp]: "bit_length 0 = 0"
  by (simp add: bit_length.simps)

lemma bit_length_pos: "0 < m \<Longrightarrow> bit_length m = Suc (bit_length (m div 2))"
  by (subst bit_length.simps) simp

lemma bit_length_bounds: "0 < m \<Longrightarrow> 2 ^ (bit_length m - 1) \<le> m \<and> m < 2 ^ bit_length m"
proof (induction m rule: bit_length.induct)
  case (1 n)
  show ?case
  proof (cases "n div 2 = 0")
    case True
    with "1.prems" have "n = 1" by (metis One_nat_def Suc_lessI div_less gr_implies_not0 less_2_cases_iff nat_neq_iff not_less_eq one_div_two_eq_zero div_eq_0_iff zero_neq_numeral)
    then show ?thesis by (simp add: bit_length_pos)
  next
    case False
    then have pos: "0 < n div 2" by simp
    from "1.IH" "1.prems" pos have ih: "2 ^ (bit_length (n div 2) - 1) \<le> n div 2"
      "n div 2 < 2 ^ bit_length (n div 2)" by auto
    have bl: "bit_length n = Suc (bit_length (n div 2))" using "1.prems" by (rule bit_length_pos)
    have "0 < bit_length (n div 2)" using pos by (simp add: bit_length_pos)
    then have e: "(2::nat) ^ (bit_length n - 1) = 2 * 2 ^ (bit_length (n div 2) - 1)"
      using bl by (cases "bit_length (n div 2)") simp_all
    have "2 * (n div 2) \<le> n" by simp
    with ih(1) e have lo: "2 ^ (bit_length n - 1) \<le> n" by linarith
    have "n < 2 * (n div 2) + 2" by linarith
    with ih(2) have "n < 2 * 2 ^ bit_length (n div 2)" by linarith
    with lo bl show ?thesis by simp
  qed
qed

lemma bit_length_less: "m < 2 ^ k \<Longrightarrow> bit_length m \<le> k"
proof (cases "m = 0")
  case True
  then show ?thesis by simp
next
  case False
  assume a: "m < 2 ^ k"
  from False have "2 ^ (bit_length m - 1) \<le> m" using bit_length_bounds[of m] by simp
  with a have "(2::nat) ^ (bit_length m - 1) < 2 ^ k" by linarith
  then have "bit_length m - 1 < k" by simp
  then show ?thesis by linarith
qed

lemma bit_length_ge: "2 ^ k \<le> m \<Longrightarrow> k < bit_length m"
proof -
  assume a: "2 ^ k \<le> m"
  then have "0 < m" by (metis gr0I not_less_eq_eq numeral_2_eq_2 power_not_zero le_zero_eq zero_neq_numeral)
  then have "m < 2 ^ bit_length m" using bit_length_bounds[of m] by simp
  with a have "(2::nat) ^ k < 2 ^ bit_length m" by linarith
  then show ?thesis by simp
qed

lemma bit_length_eq: "2 ^ k \<le> m \<Longrightarrow> m < 2 ^ Suc k \<Longrightarrow> bit_length m = Suc k"
  using bit_length_ge[of k m] bit_length_less[of m "Suc k"] by linarith

lemma round32_mag_exponent:
  assumes "n = bit_length (nat \<lfloor>x * 2 ^ 149\<rfloor>) - 24"
  shows "round32_mag x = of_int (rne (x * 2 ^ 149 / 2 ^ n)) * 2 ^ n / 2 ^ 149"
  using assms by (simp add: round32_mag_def Let_def)

lemma round32_mag_normal:
  assumes "2 ^ (n + 23) \<le> x * 2 ^ 149" and "x * 2 ^ 149 < 2 ^ (n + 24)"
  shows "round32_mag x = of_int (rne (x * 2 ^ 149 / 2 ^ n)) * 2 ^ n / 2 ^ 149"
proof -
  let ?y = "x * 2 ^ 149"
  have y0: "0 \<le> ?y" using assms(1) by (meson order_trans zero_le_numeral zero_le_power)
  then have f0: "0 \<le> \<lfloor>?y\<rfloor>" by simp
  have "of_int (2 ^ (n + 23)) \<le> ?y" using assms(1) by simp
  then have "(2::int) ^ (n + 23) \<le> \<lfloor>?y\<rfloor>" by (simp only: le_floor_iff)
  then have "int (2 ^ (n + 23)) \<le> \<lfloor>?y\<rfloor>" by simp
  then have lo: "2 ^ (n + 23) \<le> nat \<lfloor>?y\<rfloor>" using f0 by (simp only: le_nat_iff)
  have "?y < of_int (2 ^ (n + 24))" using assms(2) by simp
  then have "\<lfloor>?y\<rfloor> < 2 ^ (n + 24)" by (simp only: floor_less_iff)
  then have "\<lfloor>?y\<rfloor> < int (2 ^ (n + 24))" by simp
  then have "nat \<lfloor>?y\<rfloor> < 2 ^ (n + 24)" using f0 by (simp only: nat_less_iff)
  moreover have "n + 24 = Suc (n + 23)" by simp
  ultimately have hi: "nat \<lfloor>?y\<rfloor> < 2 ^ Suc (n + 23)" by (simp only:)
  from bit_length_eq[OF lo hi] have "bit_length (nat \<lfloor>?y\<rfloor>) - 24 = n" by simp
  then show ?thesis by (simp add: round32_mag_exponent)
qed


lemma round32_mag_subnormal:
  assumes "0 \<le> x" and "x * 2 ^ 149 < 2 ^ 24"
  shows "round32_mag x = of_int (rne (x * 2 ^ 149)) / 2 ^ 149"
proof -
  let ?y = "x * 2 ^ 149"
  have f0: "0 \<le> \<lfloor>?y\<rfloor>" using assms(1) by simp
  have "?y < of_int (2 ^ 24)" using assms(2) by simp
  then have "\<lfloor>?y\<rfloor> < 2 ^ 24" by (simp only: floor_less_iff)
  then have "\<lfloor>?y\<rfloor> < int (2 ^ 24)" by simp
  then have "nat \<lfloor>?y\<rfloor> < 2 ^ 24" using f0 by (simp only: nat_less_iff)
  then have "bit_length (nat \<lfloor>?y\<rfloor>) \<le> 24" by (rule bit_length_less)
  then have "bit_length (nat \<lfloor>?y\<rfloor>) - 24 = 0" by simp
  then show ?thesis by (simp add: round32_mag_exponent)
qed




subsection \<open>Error bounds of float32 sums and means\<close>

lemma round32_nonneg_eq: "0 \<le> x \<Longrightarrow> round32 x = round32_mag x"
  by (simp add: round32_def)










lemma round32_float:
  assumes "m < 2 ^ 24"
  shows "round32 (real m * 2 ^ e / 2 ^ 149) = real m * 2 ^ e / 2 ^ 149"
proof -
  define U :: real where "U = 2 ^ 149"
  define x where "x = real m * 2 ^ e / U"
  define n where "n = bit_length (nat \<lfloor>x * U\<rfloor>) - 24"
  have U0: "0 < U" by (simp add: U_def)
  have x0: "0 \<le> x" using U0 by (simp add: x_def)
  have xU: "x * U = real (m * 2 ^ e)" using U0 by (simp add: x_def)
  then have fl: "nat \<lfloor>x * U\<rfloor> = m * 2 ^ e" by (simp only: floor_of_nat nat_int)
  have "m * 2 ^ e < 2 ^ 24 * 2 ^ e" using assms by simp
  then have "m * 2 ^ e < 2 ^ (24 + e)" by (simp add: power_add)
  then have "bit_length (m * 2 ^ e) \<le> 24 + e" by (rule bit_length_less)
  then have ne: "n \<le> e" by (simp add: n_def fl)
  have "x * U / 2 ^ n = real m * 2 ^ (e - n)"
    using ne by (simp add: xU power_diff)
  also have "\<dots> = of_int (int m * 2 ^ (e - n))" by simp
  finally have "rne (x * U / 2 ^ n) = int m * 2 ^ (e - n)" by (simp only: rne_of_int)
  moreover have "round32_mag x = of_int (rne (x * U / 2 ^ n)) * 2 ^ n / U"
    unfolding U_def by (rule round32_mag_exponent) (simp add: n_def U_def)
  ultimately have "round32_mag x = of_int (int m * 2 ^ (e - n)) * 2 ^ n / U" by simp
  also have "\<dots> = real m * (2 ^ (e - n) * 2 ^ n) / U" by simp
  also have "(2::real) ^ (e - n) * 2 ^ n = 2 ^ e" using ne by (simp add: power_add [symmetric])
  finally have "round32_mag x = x" by (simp add: x_def)
  then show ?thesis using x0 by (simp add: round32_nonneg_eq x_def U_def)
qed

lemma is_float32I:
  assumes "x = real m * 2 ^ e / 2 ^ 149" and "m < 2 ^ 24" and "e \<le> 253"
  shows "is_float32 x"
proof -
  have r: "round32 x = x" unfolding assms(1) using assms(2) by (rule round32_float)
  have x0: "0 \<le> x" by (simp add: assms(1))
  have "real m < real (2 ^ 24)" using assms(2) by (simp only: of_nat_less_iff)
  then have m: "real m < 2 ^ 24" by simp
  have "(2::real) ^ e \<le> 2 ^ 253" using assms(3) by (intro power_increasing) simp_all
  then have "(2::real) ^ 24 * 2 ^ e \<le> 2 ^ 24 * 2 ^ 253" by (intro mult_left_mono) simp_all
  moreover have "real m * 2 ^ e < 2 ^ 24 * 2 ^ e" using m by (intro mult_strict_right_mono) simp_all
  ultimately have "real m * 2 ^ e < 2 ^ 24 * 2 ^ 253" by (rule less_le_trans [rotated])
  also have "(2::real) ^ 24 * 2 ^ 253 = 2 ^ 128 * 2 ^ 149" by (simp add: power_add [symmetric])
  finally have "x < 2 ^ 128" by (simp add: assms(1) field_simps)
  with r x0 show ?thesis by (simp add: is_float32_def)
qed

lemma round32_eval:
  assumes "2 ^ (n + 23) \<le> x * 2 ^ 149" and "x * 2 ^ 149 < 2 ^ (n + 24)"
    and "rne (x * 2 ^ 149 / 2 ^ n) = r"
  shows "round32 x = of_int r * 2 ^ n / 2 ^ 149"
proof -
  have "0 \<le> x * 2 ^ 149" using assms(1) by (meson order_trans zero_le_numeral zero_le_power)
  then have "0 \<le> x" by (simp add: zero_le_mult_iff)
  then show ?thesis
    using round32_mag_normal[OF assms(1,2)] assms(3) by (simp only: round32_nonneg_eq)
qed

subsection \<open>The numpy functions\<close>

lemma argmax_scan_spec:
  assumes "i = length pre" "best < i" "pre ! best = bv"
    "\<forall>j<i. pre ! j \<le> bv" "\<forall>j<best. pre ! j < bv"
  shows "argmax_scan xs i best bv < length (pre @ xs) \<and>
         (\<forall>j<length (pre @ xs). (pre @ xs) ! j \<le> (pre @ xs) ! argmax_scan xs i best bv) \<and>
         (\<forall>j<argmax_scan xs i best bv. (pre @ xs) ! j < (pre @ xs) ! argmax_scan xs i best bv)"
  using assms
proof (induction xs arbitrary: pre i best bv)
  case Nil
  then show ?case by simp
next
  case (Cons x xs)
  show ?case
  proof (cases "bv < x")
    case True
    have a: "Suc i = length (pre @ [x])" using Cons.prems by simp
    have b: "i < Suc i" by simp
    have c: "(pre @ [x]) ! i = x" using Cons.prems by simp
    have d: "\<forall>j<Suc i. (pre @ [x]) ! j \<le> x"
      using Cons.prems True by (auto simp: nth_append less_Suc_eq intro: less_imp_le order_trans)
    have e: "\<forall>j<i. (pre @ [x]) ! j < x"
      using Cons.prems True by (auto simp: nth_append intro: le_less_trans)
    from Cons.IH[OF a b c d e] True show ?thesis by simp
  next
    case False
    have a: "Suc i = length (pre @ [x])" using Cons.prems by simp
    have b: "best < Suc i" using Cons.prems by simp
    have c: "(pre @ [x]) ! best = bv" using Cons.prems by (simp add: nth_append)
    have d: "\<forall>j<Suc i. (pre @ [x]) ! j \<le> bv"
      using Cons.prems False by (auto simp: nth_append less_Suc_eq)
    have e: "\<forall>j<best. (pre @ [x]) ! j < bv"
      using Cons.prems by (auto simp: nth_append)
    from Cons.IH[OF a b c d e] False show ?thesis by simp
  qed
qed

lemma np_argmax_spec:
  assumes "a \<noteq> []"
  shows "\<exists>idx. np_argmax a = Inr idx \<and> idx < length a \<and>
           (\<forall>j<length a. a ! j \<le> a ! idx) \<and> (\<forall>j<idx. a ! j < a ! idx)"
proof -
  from assms obtain x xs where a: "a = x # xs" by (cases a) auto
  have "argmax_scan xs 1 0 x < length ([x] @ xs) \<and>
         (\<forall>j<length ([x] @ xs). ([x] @ xs) ! j \<le> ([x] @ xs) ! argmax_scan xs 1 0 x) \<and>
         (\<forall>j<argmax_scan xs 1 0 x. ([x] @ xs) ! j < ([x] @ xs) ! argmax_scan xs 1 0 x)"
    by (rule argmax_scan_spec) simp_all
  then show ?thesis using a by (simp add: np_argmax_def)
qed

lemma np_max_is_Max: "a \<noteq> [] \<Longrightarrow> np_max a = Inr (Max (set a))"
  by (cases a) (simp_all add: np_max_def Max.set_eq_fold [symmetric])

lemma np_max_at_argmax:
  assumes "idx < length a" "\<forall>j<length a. a ! j \<le> a ! idx"
  shows "np_max a = Inr (a ! idx)"
proof -
  have ne: "a \<noteq> []" using assms by auto
  have "Max (set a) = a ! idx"
  proof (rule Max_eqI)
    show "finite (set a)" by simp
    show "\<And>y. y \<in> set a \<Longrightarrow> y \<le> a ! idx" using assms(2) by (auto simp: in_set_conv_nth)
    show "a ! idx \<in> set a" using assms(1) by simp
  qed
  with np_max_is_Max[OF ne] show ?thesis by simp
qed


lemma np_mean_axis0_spec:
  assumes "preds \<noteq> []" "\<forall>p\<in>set preds. length p = n"
  shows "np_mean_axis0 preds =
           Inr (map (\<lambda>j. round32 (sum32 (map (\<lambda>q. q ! j) preds) / real (length preds)))
                    [0..<n])"
proof -
  from assms obtain p ps where a: "preds = p # ps" by (cases preds) auto
  have "list_all (\<lambda>q. length q = length p) ps" using assms(2) a by (simp add: list_all_iff)
  moreover have "length p = n" using assms(2) a by simp
  ultimately show ?thesis using a by (simp add: np_mean_axis0_def)
qed

lemma np_mean_axis0_single:
  assumes "list_all (\<lambda>v. round32 v = v) p"
  shows "np_mean_axis0 [p] = Inr p"
proof -
  have "map (\<lambda>j. round32 (sum32 (map (\<lambda>q. q ! j) [p]) / real (length [p]))) [0..<length p] =
        map (\<lambda>j. p ! j) [0..<length p]"
    using assms by (intro map_cong refl) (simp add: list_all_length)
  then show ?thesis by (simp add: np_mean_axis0_def map_nth)
qed

subsection \<open>The loop over the classifiers\<close>




lemma no_models_msg_neq: "no_models_msg \<noteq> no_predictions_msg"
  by (simp add: no_models_msg_def no_predictions_msg_def)

lemma build_inv_not_RuntimeError: "build_inv kvs d \<noteq> Inl (RuntimeError msg)"
  by (induction kvs arbitrary: d) (auto split: option.splits)

lemma py_items_not_RuntimeError: "py_items j \<noteq> Inl (RuntimeError msg)"
  by (cases j) auto

lemma resolve_label_not_RuntimeError: "resolve_label cm idx \<noteq> Inl (RuntimeError msg)"
  using build_inv_not_RuntimeError py_items_not_RuntimeError
  by (auto simp: resolve_label_def split: sum.splits)

lemma np_mean_not_RuntimeError: "np_mean_axis0 preds \<noteq> Inl (RuntimeError msg)"
  by (auto simp: np_mean_axis0_def split: list.splits)

lemma np_argmax_not_RuntimeError: "np_argmax a \<noteq> Inl (RuntimeError msg)"
  by (auto simp: np_argmax_def split: list.splits)

lemma np_max_not_RuntimeError: "np_max a \<noteq> Inl (RuntimeError msg)"
  by (auto simp: np_max_def split: list.splits)

lemma ensemble_result_not_RuntimeError: "ensemble_result cm preds \<noteq> Inl (RuntimeError msg)"
  using resolve_label_not_RuntimeError np_mean_not_RuntimeError
    np_argmax_not_RuntimeError np_max_not_RuntimeError
  by (auto simp: ensemble_result_def split: sum.splits)

lemma predict_image_RuntimeError_cases:
  assumes "predict_image load models cm stored = Inl (RuntimeError msg)"
  shows "(models = [] \<and> msg = no_models_msg) \<or>
         (models \<noteq> [] \<and> msg = no_predictions_msg \<and>
          (\<exists>img. load stored (224, 224) = Some img \<and>
                 preds_loop models [map (\<lambda>v. round32 (real v / 255)) img] = []))"
  using assms ensemble_result_not_RuntimeError
  by (auto simp: predict_image_def Let_def split: if_splits option.splits)

subsection \<open>Label resolution on a converted class map\<close>

lemma int_values_converted:
  "int_values f kvs = Inr c \<Longrightarrow> list_all (\<lambda>(k, v). is_JInt v) c"
  by (induction kvs arbitrary: c) (auto split: sum.splits)

lemma load_class_map_cases:
  "converted_map (load_class_map f file) \<or> (\<exists>doc. file = Parsed doc \<and> load_class_map f file = doc)"
  by (auto simp: load_class_map_def converted_map_def int_values_converted
      split: class_map_file.splits sum.splits)

lemma build_inv_append:
  "build_inv (xs @ ys) d = (case build_inv xs d of Inl e \<Rightarrow> Inl e | Inr d' \<Rightarrow> build_inv ys d')"
  by (induction xs arbitrary: d) (auto split: option.splits)

lemma build_inv_int_valued:
  "list_all (\<lambda>(k, v). is_JInt v) kvs \<Longrightarrow> \<exists>d'. build_inv kvs d = Inr d'"
proof (induction kvs arbitrary: d)
  case Nil
  then show ?case by simp
next
  case (Cons kv kvs)
  obtain k v where kv: "kv = (k, v)" by (cases kv)
  with Cons.prems obtain n where v: "v = JInt n" by (cases v) auto
  from Cons.prems have "list_all (\<lambda>(k, v). is_JInt v) kvs" by simp
  from Cons.IH[OF this] show ?case using kv v by simp
qed

lemma build_inv_miss:
  "list_all (\<lambda>(k, v). is_JInt v) kvs \<Longrightarrow> \<forall>(k, v)\<in>set kvs. v \<noteq> JInt i \<Longrightarrow>
   \<exists>d'. build_inv kvs d = Inr d' \<and> d' (KNum (real_of_int i)) = d (KNum (real_of_int i))"
proof (induction kvs arbitrary: d)
  case Nil
  then show ?case by simp
next
  case (Cons kv kvs)
  obtain k v where kv: "kv = (k, v)" by (cases kv)
  with Cons.prems(1) obtain n where v: "v = JInt n" by (cases v) auto
  have ne: "n \<noteq> i" using Cons.prems(2) kv v by auto
  have a: "list_all (\<lambda>(k, v). is_JInt v) kvs" using Cons.prems(1) by simp
  have b: "\<forall>(k, v)\<in>set kvs. v \<noteq> JInt i" using Cons.prems(2) by simp
  from Cons.IH[OF a b, of "d(KNum (real_of_int n) \<mapsto> k)"] obtain d' where
    d': "build_inv kvs (d(KNum (real_of_int n) \<mapsto> k)) = Inr d'"
    and eq: "d' (KNum (real_of_int i)) = (d(KNum (real_of_int n) \<mapsto> k)) (KNum (real_of_int i))"
    by blast
  have "build_inv (kv # kvs) d = Inr d'" using kv v d' by simp
  moreover have "d' (KNum (real_of_int i)) = d (KNum (real_of_int i))" using eq ne by simp
  ultimately show ?case by blast
qed


lemma resolve_label_last:
  assumes "list_all (\<lambda>(k, v). is_JInt v) (before @ (name, JInt (int idx)) # after)"
    and "\<forall>(k, v)\<in>set after. v \<noteq> JInt (int idx)"
  shows "resolve_label (JObj (before @ (name, JInt (int idx)) # after)) idx = Inr name"
proof -
  have ivb: "list_all (\<lambda>(k, v). is_JInt v) before" and iva: "list_all (\<lambda>(k, v). is_JInt v) after"
    using assms(1) by simp_all
  from build_inv_int_valued[OF ivb, of Map.empty] obtain d1 where
    d1: "build_inv before Map.empty = Inr d1" by blast
  from build_inv_miss[OF iva assms(2), of "d1(KNum (real_of_int (int idx)) \<mapsto> name)"]
  obtain d2 where d2: "build_inv after (d1(KNum (real_of_int (int idx)) \<mapsto> name)) = Inr d2"
    and hit: "d2 (KNum (real_of_int (int idx))) = Some name" by auto
  have "build_inv (before @ (name, JInt (int idx)) # after) Map.empty = Inr d2"
    using d1 d2 by (simp add: build_inv_append)
  then show ?thesis using hit by (simp add: resolve_label_def)
qed

lemma resolve_label_miss:
  assumes "list_all (\<lambda>(k, v). is_JInt v) kvs" and "\<forall>(k, v)\<in>set kvs. v \<noteq> JInt (int idx)"
  shows "resolve_label (JObj kvs) idx = Inr (py_str idx)"
proof -
  from build_inv_miss[OF assms, of Map.empty] obtain d where
    "build_inv kvs Map.empty = Inr d" and "d (KNum (real_of_int (int idx))) = None" by auto
  then show ?thesis by (simp add: resolve_label_def)
qed

subsection \<open>The ensemble prediction\<close>

lemma ensemble_result_argmax:
  assumes "preds \<noteq> []"
    and "\<forall>p\<in>set preds. length p = n"
    and "0 < n"
    and "avg = map (\<lambda>j. round32 (sum32 (map (\<lambda>q. q ! j) preds) / real (length preds))) [0..<n]"
  shows "\<exists>idx. np_mean_axis0 preds = Inr avg \<and> np_argmax avg = Inr idx \<and> idx < n \<and>
           (\<forall>j<n. avg ! j \<le> avg ! idx) \<and>
           (\<forall>j<idx. avg ! j < avg ! idx) \<and>
           ensemble_result CLASS_MAP preds =
             (case resolve_label CLASS_MAP idx of
                Inl e \<Rightarrow> Inl e
              | Inr label \<Rightarrow> Inr (label, avg ! idx))"
proof -
  have mean: "np_mean_axis0 preds = Inr avg"
    unfolding assms(4) using assms(1,2) by (rule np_mean_axis0_spec)
  have len: "length avg = n" by (simp add: assms(4))
  then have "avg \<noteq> []" using assms(3) by auto
  from np_argmax_spec[OF this] obtain idx where
    am: "np_argmax avg = Inr idx" and lt: "idx < length avg"
    and ge: "\<forall>j<length avg. avg ! j \<le> avg ! idx" and first: "\<forall>j<idx. avg ! j < avg ! idx"
    by blast
  have mx: "np_max avg = Inr (avg ! idx)" using lt ge by (rule np_max_at_argmax)
  have "ensemble_result CLASS_MAP preds =
          (case resolve_label CLASS_MAP idx of
             Inl e \<Rightarrow> Inl e
           | Inr label \<Rightarrow> Inr (label, avg ! idx))"
    using mean am mx by (simp add: ensemble_result_def)
  with mean am len lt ge first show ?thesis by (intro exI[of _ idx]) simp
qed

lemma predict_image_ensemble:
  assumes "models \<noteq> []"
    and "load stored (224, 224) = Some img"
    and "preds_loop models [map (\<lambda>v. round32 (real v / 255)) img] = preds"
    and "preds \<noteq> []"
  shows "predict_image load models CLASS_MAP stored = ensemble_result CLASS_MAP preds"
  using assms by (simp add: predict_image_def Let_def)

text \<open>
  Claim C3. With no classifier loaded, \<^verbatim>\<open>predict_image\<close> raises
  \<^verbatim>\<open>RuntimeError("No models loaded in 'models/' directory. Add your .h5 files.")\<close> for every
  image, readable or not, and every class map; the exception differs from the one for
  failed inference (same class, another message); and no call with a classifier loaded
  raises it.
\<close>

theorem predict_image_no_models:
  "predict_image load [] CLASS_MAP file = Inl (RuntimeError no_models_msg) \<and>
   RuntimeError no_models_msg \<noteq> RuntimeError no_predictions_msg \<and>
   (predict_image load models CLASS_MAP file = Inl (RuntimeError no_models_msg) \<longleftrightarrow> models = [])"
proof (intro conjI)
  show "predict_image load [] CLASS_MAP file = Inl (RuntimeError no_models_msg)"
    by (simp add: predict_image_def)
  show "RuntimeError no_models_msg \<noteq> RuntimeError no_predictions_msg"
    by (simp add: no_models_msg_neq)
  show "predict_image load models CLASS_MAP file = Inl (RuntimeError no_models_msg) \<longleftrightarrow> models = []"
  proof
    assume "predict_image load models CLASS_MAP file = Inl (RuntimeError no_models_msg)"
    from predict_image_RuntimeError_cases[OF this] show "models = []"
      using no_models_msg_neq by auto
  next
    assume "models = []"
    then show "predict_image load models CLASS_MAP file = Inl (RuntimeError no_models_msg)"
      by (simp add: predict_image_def)
  qed
qed


text \<open>
  Claim C8, where the source departs from it. \<^verbatim>\<open>class_indices.json\<close> holds the JSON array
  \<^verbatim>\<open>["Neem", "Tulsi"]\<close>: line 30 binds \<^verbatim>\<open>CLASS_MAP\<close> to the list, line 32 raises
  (\<^verbatim>\<open>list\<close> has no \<^verbatim>\<open>items\<close>), line 33 catches, and the list stays. Then for every index
  label resolution raises \<^verbatim>\<open>AttributeError\<close>, and so does \<^verbatim>\<open>predict_image\<close>. The same
  happens with \<^verbatim>\<open>TypeError\<close> for the object \<^verbatim>\<open>{"Neem": [0]}\<close>, whose value is unhashable.
\<close>

theorem label_resolution_fails_after_failed_conversion:
  "load_class_map int_of_str (Parsed (JArr [JStr ''Neem'', JStr ''Tulsi''])) =
     JArr [JStr ''Neem'', JStr ''Tulsi''] \<and>
   resolve_label (load_class_map int_of_str (Parsed (JArr [JStr ''Neem'', JStr ''Tulsi'']))) idx =
     Inl AttributeError \<and>
   predict_image (\<lambda>f s. Some []) [\<lambda>x. Some [[0.9, 0.1]]]
     (load_class_map int_of_str (Parsed (JArr [JStr ''Neem'', JStr ''Tulsi'']))) [] =
     Inl AttributeError \<and>
   load_class_map int_of_str (Parsed (JObj [(''Neem'', JArr [JInt 0])])) =
     JObj [(''Neem'', JArr [JInt 0])] \<and>
   resolve_label (load_class_map int_of_str (Parsed (JObj [(''Neem'', JArr [JInt 0])]))) idx =
     Inl TypeError"
proof -
  let ?doc = "JArr [JStr ''Neem'', JStr ''Tulsi'']"
  have l1: "load_class_map int_of_str (Parsed ?doc) = ?doc" by (simp add: load_class_map_def)
  have r1: "resolve_label ?doc i = Inl AttributeError" for i by (simp add: resolve_label_def)
  have "\<exists>i. ensemble_result ?doc [[0.9, 0.1]] =
          (case resolve_label ?doc i of
             Inl e \<Rightarrow> Inl e
           | Inr label \<Rightarrow>
               Inr (label,
                    map (\<lambda>j. round32 (sum32 (map (\<lambda>q. q ! j) [[0.9, 0.1]]) / real (length [[0.9, 0.1 :: real]])))
                      [0..<2] ! i))"
    using ensemble_result_argmax [where preds = "[[0.9, 0.1]]" and n = 2 and CLASS_MAP = ?doc, OF _ _ _ refl]
    by auto
  then have e1: "ensemble_result ?doc [[0.9, 0.1]] = Inl AttributeError" by (auto simp: r1)
  have p1: "predict_image (\<lambda>f s. Some []) [\<lambda>x. Some [[0.9, 0.1]]] ?doc [] = Inl AttributeError"
    by (simp add: predict_image_def e1)
  have l2: "load_class_map int_of_str (Parsed (JObj [(''Neem'', JArr [JInt 0])])) =
              JObj [(''Neem'', JArr [JInt 0])]"
    by (simp add: load_class_map_def)
  have r2: "resolve_label (JObj [(''Neem'', JArr [JInt 0])]) idx = Inl TypeError"
    by (simp add: resolve_label_def)
  show ?thesis by (simp only: l1 l2 r1 r2 p1)
qed

text \<open>
  Claim C10. Nothing in the source checks that \<^verbatim>\<open>CLASS_MAP\<close> is injective. When the
  dictionary of integers gives the predicted index to several names, \<^verbatim>\<open>predict_image\<close>
  does not fail and returns the name of the last item with that index: the inverse
  dictionary is built from \<^verbatim>\<open>CLASS_MAP\<close> in item order inside the call, and a later item
  replaces an earlier one. In the witness Neem and Margosa both have index 1.
\<close>

theorem predict_image_non_injective_class_map:
  assumes "models \<noteq> []"
    and "load stored (224, 224) = Some img"
    and "preds_loop models [map (\<lambda>v. round32 (real v / 255)) img] = preds"
    and "preds \<noteq> []"
    and "np_mean_axis0 preds = Inr avg"
    and "np_argmax avg = Inr idx"
    and "CLASS_MAP = JObj (before @ (name, JInt (int idx)) # after)"
    and "converted_map CLASS_MAP"
    and "\<forall>(k, v)\<in>set after. v \<noteq> JInt (int idx)"
  shows "\<exists>confidence. predict_image load models CLASS_MAP stored = Inr (name, confidence)"
proof -
  have iv: "list_all (\<lambda>(k, v). is_JInt v) (before @ (name, JInt (int idx)) # after)"
    using assms(7,8) by (simp add: converted_map_def)
  have rl: "resolve_label CLASS_MAP idx = Inr name"
    unfolding assms(7) using iv assms(9) by (rule resolve_label_last)
  have "avg \<noteq> []" using assms(6) by (auto simp: np_argmax_def)
  then obtain c where "np_max avg = Inr c" by (cases avg) (auto simp: np_max_def)
  then have "predict_image load models CLASS_MAP stored = Inr (name, c)"
    using assms(1-6) rl by (simp add: predict_image_def Let_def ensemble_result_def)
  then show ?thesis by blast
qed

theorem predict_image_non_injective_class_map_witness:
  "\<exists>confidence.
     predict_image (\<lambda>f s. Some []) [\<lambda>x. Some [[1 / 4, 3 / 4]]]
       (JObj [(''Neem'', JInt 1), (''Tulsi'', JInt 0), (''Margosa'', JInt 1)]) []
     = Inr (''Margosa'', confidence)"
proof -
  let ?cm = "JObj [(''Neem'', JInt 1), (''Tulsi'', JInt 0), (''Margosa'', JInt 1)]"
  have f1: "round32 (1 / 4) = 1 / 4"
    using round32_float [where m = 1 and e = 147] by simp
  have f3: "round32 (3 / 4) = 3 / 4"
    using round32_float [where m = 3 and e = 147] by simp
  show ?thesis
  proof (rule predict_image_non_injective_class_map
      [where img = "[]" and preds = "[[1 / 4, 3 / 4]]" and avg = "[1 / 4, 3 / 4]" and idx = 1
         and before = "[(''Neem'', JInt 1), (''Tulsi'', JInt 0)]" and after = "[]"])
    show "np_mean_axis0 [[1 / 4, 3 / 4]] = Inr [1 / 4, 3 / 4]"
      by (rule np_mean_axis0_single) (simp add: f1 f3)
    show "np_argmax [1 / 4, 3 / 4] = Inr 1" by (simp add: np_argmax_def)
    show "converted_map ?cm" by (simp add: converted_map_def)
  qed simp_all
qed

subsection \<open>Preprocessing\<close>

lemma max_key_scan_spec:
  "key best = Some bv \<Longrightarrow> max_key_scan key cs best bv = Some c \<Longrightarrow>
   c \<in> set (best # cs) \<and>
   (\<exists>a. key c = Some a \<and> bv \<le> a \<and> (\<forall>c'\<in>set cs. \<exists>a'. key c' = Some a' \<and> a' \<le> a))"
proof (induction cs arbitrary: best bv)
  case Nil
  then show ?case by simp
next
  case (Cons x cs)
  from Cons.prems(2) obtain ax where ax: "key x = Some ax" by (auto split: option.splits)
  show ?case
  proof (cases "bv < ax")
    case True
    with Cons.prems(2) ax have "max_key_scan key cs x ax = Some c" by simp
    from Cons.IH[OF ax this] obtain a where
      "c \<in> set (x # cs)" "key c = Some a" "ax \<le> a" "\<forall>c'\<in>set cs. \<exists>a'. key c' = Some a' \<and> a' \<le> a"
      by blast
    with True ax show ?thesis by auto
  next
    case False
    with Cons.prems(2) ax have "max_key_scan key cs best bv = Some c" by simp
    from Cons.IH[OF Cons.prems(1) this] obtain a where
      "c \<in> set (best # cs)" "key c = Some a" "bv \<le> a" "\<forall>c'\<in>set cs. \<exists>a'. key c' = Some a' \<and> a' \<le> a"
      by blast
    with False ax show ?thesis by auto
  qed
qed

lemma py_max_key_spec:
  assumes "py_max_key key cs = Some c"
  shows "c \<in> set cs \<and> (\<exists>a. key c = Some a \<and> (\<forall>c'\<in>set cs. \<exists>a'. key c' = Some a' \<and> a' \<le> a))"
proof (cases cs)
  case Nil
  with assms show ?thesis by simp
next
  case (Cons x xs)
  with assms obtain ax where ax: "key x = Some ax" and m: "max_key_scan key xs x ax = Some c"
    by (auto split: option.splits)
  from max_key_scan_spec[OF ax m] Cons ax show ?thesis by auto
qed

lemma crop_box_size:
  assumes "y + h \<le> length img" and "\<forall>row\<in>set img. x + w \<le> length row"
  shows "length (crop_box img x y w h) = h \<and> (\<forall>row\<in>set (crop_box img x y w h). length row = w)"
proof -
  have sub: "set (take h (drop y img)) \<subseteq> set img"
    by (meson set_drop_subset set_take_subset subset_trans)
  have "min (length row - x) w = w" if "row \<in> set (take h (drop y img))" for row
  proof -
    from that sub have "row \<in> set img" by blast
    with assms(2) have "x + w \<le> length row" by blast
    then show ?thesis by simp
  qed
  moreover have "min (length img - y) h = h" using assms(1) by simp
  ultimately show ?thesis by (simp add: crop_box_def py_slice_def)
qed


lemmas cv2_consts = COLOR_BGR2GRAY_def THRESH_BINARY_def THRESH_OTSU_def RETR_EXTERNAL_def
  CHAIN_APPROX_SIMPLE_def

lemmas example_defs = example_runtime_def example_cv2_def

lemma upload_predict_eq:
  "upload_predict rt models CLASS_MAP f =
     (snd (preprocess_image_if_available rt f),
      predict_image (load_img rt) models CLASS_MAP
        (content (snd (preprocess_image_if_available rt f))))"
  by (simp add: upload_predict_def split: prod.splits)


lemma cv2_fallback_example_black:
  "cv2_fallback example_runtime \<lparr>content = [0], writes = 0\<rparr> = (False, \<lparr>content = [0], writes = 0\<rparr>)"
  by (simp add: cv2_fallback_def example_defs find_leaf_contours_def cv2_consts)


text \<open>
  Claim C6. When the primary strategy has failed and every step of the fallback succeeds,
  the steps feed each other in this order: grayscale of the decoded image, Gaussian blur
  with a 5 by 5 kernel, threshold with the Otsu flag, external contours, the contour \<open>c\<close>
  of largest area, its bounding box, the crop of the decoded (colour) image to that box,
  the resize to 224 by 224, and the write of the result over the file. \<open>c\<close> is one of the
  contours and none has a larger area; the crop is rows \<open>y\<close> to \<open>y + h\<close> and columns \<open>x\<close>
  to \<open>x + w\<close>, of height \<open>h\<close> and width \<open>w\<close> when the box lies inside the image.
\<close>


theorem fallback_steps_in_order:
  assumes "rembg_primary rt f = Inl f0"
    and "cv2 rt = Some cv"
    and "imread cv (content f0) = Some img"
    and "cvtColor cv img COLOR_BGR2GRAY = Some gray"
    and "GaussianBlur cv gray (5, 5) 0 = Some blur"
    and "threshold cv blur 0 255 (THRESH_BINARY + THRESH_OTSU) = Some (t, th)"
    and "findContours cv th RETR_EXTERNAL CHAIN_APPROX_SIMPLE = Some (contours, hierarchy)"
    and "contours \<noteq> []"
    and "py_max_key (contourArea cv) contours = Some c"
    and "boundingRect cv c = Some (x, y, w, h)"
    and "resize cv (crop_box img x y w h) (224, 224) = Some crop"
    and "imwrite cv crop = ImwriteTrue encoded"
  shows "preprocess_image_if_available rt f = (True, write_file f0 encoded) \<and>
         content (snd (preprocess_image_if_available rt f)) = encoded \<and>
         c \<in> set contours \<and>
         (\<exists>a. contourArea cv c = Some a \<and>
              (\<forall>c'\<in>set contours. \<exists>a'. contourArea cv c' = Some a' \<and> a' \<le> a)) \<and>
         crop_box img x y w h = map (\<lambda>row. take w (drop x row)) (take h (drop y img)) \<and>
         (y + h \<le> length img \<and> (\<forall>row\<in>set img. x + w \<le> length row) \<longrightarrow>
            length (crop_box img x y w h) = h \<and>
            (\<forall>row\<in>set (crop_box img x y w h). length row = w))"
proof -
  have flc: "find_leaf_contours cv img = Some contours"
    using assms(4-7) by (simp add: find_leaf_contours_def)
  have cl: "crop_largest cv img contours = Some crop"
    using assms(9-11) by (simp add: crop_largest_def)
  have fb: "cv2_fallback rt f0 = (True, write_file f0 encoded)"
    using assms(2,3,8,12) flc cl by (simp add: cv2_fallback_def)
  have pre: "preprocess_image_if_available rt f = (True, write_file f0 encoded)"
    using assms(1) fb by (simp add: preprocess_image_if_available_def)
  have cont: "content (snd (preprocess_image_if_available rt f)) = encoded"
    by (simp add: pre write_file_def)
  have box: "crop_box img x y w h = map (\<lambda>row. take w (drop x row)) (take h (drop y img))"
    by (simp add: crop_box_def py_slice_def)
  from py_max_key_spec[OF assms(9)] pre cont box crop_box_size[of y h img x w]
  show ?thesis by blast
qed

theorem fallback_steps_in_order_witness:
  "preprocess_image_if_available example_runtime \<lparr>content = [7], writes = 0\<rparr> =
     (True, \<lparr>content = [2, 2], writes = 1\<rparr>)"
proof -
  let ?f = "\<lparr>content = [7::nat], writes = 0\<rparr>"
  let ?img = "[[(0, 0, 0), (7, 7, 7), (7, 7, 7)], [(0, 0, 0), (7, 7, 7), (7, 7, 7)]] :: bgr image"
  let ?gray = "[[0, 7, 7], [0, 7, 7]] :: nat image"
  let ?th = "[[0, 255, 255], [0, 255, 255]] :: nat image"
  let ?c = "[(1, 0), (2, 0), (2, 1), (1, 1)] :: contour"
  have "preprocess_image_if_available example_runtime ?f = (True, write_file ?f [2, 2]) \<and>
         content (snd (preprocess_image_if_available example_runtime ?f)) = [2, 2] \<and>
         ?c \<in> set [[(1, 0)], ?c] \<and>
         (\<exists>a. contourArea example_cv2 ?c = Some a \<and>
              (\<forall>c'\<in>set [[(1, 0)], ?c]. \<exists>a'. contourArea example_cv2 c' = Some a' \<and> a' \<le> a)) \<and>
         crop_box ?img 1 0 2 2 = map (\<lambda>row. take 2 (drop 1 row)) (take 2 (drop 0 ?img)) \<and>
         (0 + 2 \<le> length ?img \<and> (\<forall>row\<in>set ?img. 1 + 2 \<le> length row) \<longrightarrow>
            length (crop_box ?img 1 0 2 2) = 2 \<and>
            (\<forall>row\<in>set (crop_box ?img 1 0 2 2). length row = 2))"
  proof (rule fallback_steps_in_order
      [where f0 = ?f and cv = example_cv2 and gray = ?gray and blur = ?gray and t = 0 and th = ?th
         and hierarchy = "[]" and crop = "[[(7, 7, 7), (7, 7, 7)], [(7, 7, 7), (7, 7, 7)]]"])
    show "rembg_primary example_runtime ?f = Inl ?f" by (simp add: rembg_primary_def example_defs)
    show "cv2 example_runtime = Some example_cv2" by (simp add: example_defs)
    show "imread example_cv2 (content ?f) = Some ?img" by (simp add: example_defs)
    show "cvtColor example_cv2 ?img COLOR_BGR2GRAY = Some ?gray" by (simp add: example_defs cv2_consts)
    show "GaussianBlur example_cv2 ?gray (5, 5) 0 = Some ?gray" by (simp add: example_defs)
    show "threshold example_cv2 ?gray 0 255 (THRESH_BINARY + THRESH_OTSU) = Some (0, ?th)"
      by (simp add: example_defs cv2_consts)
    show "findContours example_cv2 ?th RETR_EXTERNAL CHAIN_APPROX_SIMPLE = Some ([[(1, 0)], ?c], [])"
      by (simp add: example_defs cv2_consts)
    show "[[(1, 0)], ?c] \<noteq> []" by simp
    show "py_max_key (contourArea example_cv2) [[(1, 0)], ?c] = Some ?c" by (simp add: example_defs)
    show "boundingRect example_cv2 ?c = Some (1, 0, 2, 2)" by (simp add: example_defs)
    show "resize example_cv2 (crop_box ?img 1 0 2 2) (224, 224) =
            Some [[(7, 7, 7), (7, 7, 7)], [(7, 7, 7), (7, 7, 7)]]"
      by (simp add: example_defs crop_box_def py_slice_def)
    show "imwrite example_cv2 [[(7, 7, 7), (7, 7, 7)], [(7, 7, 7), (7, 7, 7)]] = ImwriteTrue [2, 2]"
      by (simp add: example_defs)
  qed
  then show ?thesis by (simp add: write_file_def)
qed

subsection \<open>The example vectors in float32\<close>

lemma float_facts:
  "round32 (1 / 2) = 1 / 2" "round32 (1 / 4) = 1 / 4" "round32 (1 / 8) = 1 / 8"
  "round32 (3 / 4) = 3 / 4"
  using round32_float [where m = 1 and e = 148] round32_float [where m = 1 and e = 147]
    round32_float [where m = 1 and e = 146] round32_float [where m = 3 and e = 147]
  by simp_all

lemma tie_a_float: "list_all is_float32 tie_vector_a"
proof -
  have "is_float32 (1 / 4)" by (rule is_float32I [where m = 1 and e = 147]) simp_all
  moreover have "is_float32 (1 / 8)" by (rule is_float32I [where m = 1 and e = 146]) simp_all
  moreover have "is_float32 (1 / 4 + 1 / 2 ^ 25)"
    by (rule is_float32I [where m = "2 ^ 23 + 1" and e = 124]) simp_all
  moreover have "is_float32 (1 / 4 - 1 / 2 ^ 25)"
    by (rule is_float32I [where m = "2 ^ 23 - 1" and e = 124]) simp_all
  ultimately show ?thesis by (simp add: tie_vector_a_def)
qed

lemma tie_b_float: "list_all is_float32 tie_vector_b"
proof -
  have "is_float32 (1 / 4)" by (rule is_float32I [where m = 1 and e = 147]) simp_all
  moreover have "is_float32 (1 / 8)" by (rule is_float32I [where m = 1 and e = 146]) simp_all
  ultimately show ?thesis by (simp add: tie_vector_b_def)
qed

lemma tie_round:
  "round32 (16777217 / 33554432) = 1 / 2"
  "round32 (16777215 / 33554432) = 16777215 / 33554432"
  "round32 (16777215 / 67108864) = 16777215 / 67108864"
proof -
  have "round32 (16777217 / 33554432) = of_int (2 ^ 23) * 2 ^ 125 / 2 ^ 149"
    by (rule round32_eval) (simp_all add: rne_def)
  then show "round32 (16777217 / 33554432) = 1 / 2" by simp
  show "round32 (16777215 / 33554432) = 16777215 / 33554432"
    using round32_float [where m = 16777215 and e = 124] by simp
  show "round32 (16777215 / 67108864) = 16777215 / 67108864"
    using round32_float [where m = 16777215 and e = 123] by simp
qed

lemma tie_mean:
  "np_mean_axis0 [tie_vector_a, tie_vector_b] = Inr [1 / 4, 1 / 4, 1 / 8, 1 / 8, 1 / 4 - 1 / 2 ^ 26]"
  by (simp add: np_mean_axis0_def tie_vector_a_def tie_vector_b_def upt_rec float_facts tie_round)

lemma scenario_float: "list_all is_float32 scenario_a" "list_all is_float32 scenario_b"
proof -
  have "is_float32 (7549747 / 2 ^ 23)" by (rule is_float32I [where m = 7549747 and e = 126]) simp_all
  moreover have "is_float32 (13421773 / 2 ^ 27)"
    by (rule is_float32I [where m = 13421773 and e = 122]) simp_all
  ultimately show "list_all is_float32 scenario_a" by (simp add: scenario_a_def)
  have "is_float32 (5033165 / 2 ^ 24)" by (rule is_float32I [where m = 5033165 and e = 125]) simp_all
  moreover have "is_float32 (11744051 / 2 ^ 24)"
    by (rule is_float32I [where m = 11744051 and e = 125]) simp_all
  ultimately show "list_all is_float32 scenario_b" by (simp add: scenario_b_def)
qed

lemma scenario_round:
  "round32 (20132659 / 16777216) = 5033165 / 4194304"
  "round32 (5033165 / 8388608) = 5033165 / 8388608"
  "round32 (107374181 / 134217728) = 13421773 / 16777216"
  "round32 (13421773 / 33554432) = 13421773 / 33554432"
proof -
  have "round32 (20132659 / 16777216) = of_int 10066330 * 2 ^ 126 / 2 ^ 149"
    by (rule round32_eval) (simp_all add: rne_def)
  then show "round32 (20132659 / 16777216) = 5033165 / 4194304" by simp
  show "round32 (5033165 / 8388608) = 5033165 / 8388608"
    using round32_float [where m = 5033165 and e = 126] by simp
  have "round32 (107374181 / 134217728) = of_int 13421773 * 2 ^ 125 / 2 ^ 149"
    by (rule round32_eval) (simp_all add: rne_def)
  then show "round32 (107374181 / 134217728) = 13421773 / 16777216" by simp
  show "round32 (13421773 / 33554432) = 13421773 / 33554432"
    using round32_float [where m = 13421773 and e = 124] by simp
qed

lemma scenario_mean:
  "np_mean_axis0 [scenario_a, scenario_b] = Inr [5033165 / 2 ^ 23, 13421773 / 2 ^ 25]"
  by (simp add: np_mean_axis0_def scenario_a_def scenario_b_def upt_rec scenario_round)

subsection \<open>The float32 mean and its arg-max\<close>

lemma preds_loop_const2:
  "preds_loop [const_classifier a, const_classifier b] x = [a, b]"
  by (simp add: const_classifier_def)

lemma resolve_label_empty_0: "resolve_label (JObj []) 0 = Inr ''0''"
  by (simp add: resolve_label_def digit_char_def)

lemma resolve_label_empty_1: "resolve_label (JObj []) (Suc 0) = Inr ''1''"
  by (simp add: resolve_label_def digit_char_def)

lemma example_load: "b \<noteq> [] \<Longrightarrow> load_img example_runtime b (224, 224) = Some b"
  by (simp add: example_runtime_def)

text \<open>
  Claim C1, amended. Let \<open>preds\<close> be the vectors that the loop of \<^verbatim>\<open>predict_image\<close>
  collected, at least one, all of one positive length \<open>n\<close>, with float32 entries between
  0 and 1. Then \<^verbatim>\<open>avg\<close> is their element-wise mean as \<^verbatim>\<open>np.mean\<close> computes it in float32
  (at each position the values are added one after the other and the sum is divided by
  the number of vectors, every operation rounded), and the index \<open>idx\<close> that
  \<^verbatim>\<open>predict_image\<close> turns into the label is a position of the largest value of \<^verbatim>\<open>avg\<close>,
  the lowest such position when several hold it. The confidence returned is \<open>avg ! idx\<close>
  itself: nothing is normalised after averaging. The witness is the specification's
  scenario on the float32 numbers nearest to \<open>[0.9, 0.1]\<close> and \<open>[0.3, 0.7]\<close>: index 0, and
  as confidence the float32 number nearest to 0.6.
\<close>

theorem predict_image_argmax_of_float32_mean:
  assumes "models \<noteq> []"
    and "load stored (224, 224) = Some img"
    and "preds_loop models [map (\<lambda>v. round32 (real v / 255)) img] = preds"
    and "preds \<noteq> []"
    and "\<forall>p\<in>set preds. length p = n \<and> unit_vector p"
    and "0 < n"
  shows "\<exists>idx avg.
           np_mean_axis0 preds = Inr avg \<and> length avg = n \<and>
           (\<forall>j<n. avg ! j = round32 (sum32 (map (\<lambda>p. p ! j) preds) / real (length preds))) \<and>
           idx < n \<and>
           (\<forall>j<n. avg ! j \<le> avg ! idx) \<and>
           (\<forall>j<idx. avg ! j < avg ! idx) \<and>
           predict_image load models CLASS_MAP stored =
             (case resolve_label CLASS_MAP idx of
                Inl e \<Rightarrow> Inl e
              | Inr label \<Rightarrow> Inr (label, avg ! idx))"
proof -
  define avg where
    "avg = map (\<lambda>j. round32 (sum32 (map (\<lambda>q. q ! j) preds) / real (length preds))) [0..<n]"
  have len: "\<forall>p\<in>set preds. length p = n" using assms(5) by simp
  from ensemble_result_argmax [OF assms(4) len assms(6) avg_def, of CLASS_MAP]
  obtain idx where "np_mean_axis0 preds = Inr avg" "idx < n"
    "\<forall>j<n. avg ! j \<le> avg ! idx" "\<forall>j<idx. avg ! j < avg ! idx"
    "ensemble_result CLASS_MAP preds =
       (case resolve_label CLASS_MAP idx of
          Inl e \<Rightarrow> Inl e
        | Inr label \<Rightarrow> Inr (label, avg ! idx))"
    by blast
  moreover have "predict_image load models CLASS_MAP stored = ensemble_result CLASS_MAP preds"
    using assms(1-4) by (rule predict_image_ensemble)
  moreover have "length avg = n" by (simp add: avg_def)
  moreover have "\<forall>j<n. avg ! j = round32 (sum32 (map (\<lambda>p. p ! j) preds) / real (length preds))"
    by (simp add: avg_def)
  ultimately show ?thesis by (intro exI[of _ idx] exI[of _ avg]) simp
qed

theorem predict_image_argmax_of_float32_mean_witness:
  "predict_image (load_img example_runtime)
     [const_classifier scenario_a, const_classifier scenario_b] (JObj []) [7]
     = Inr (''0'', 5033165 / 2 ^ 23)"
proof -
  let ?models = "[const_classifier scenario_a, const_classifier scenario_b]"
  let ?preds = "[scenario_a, scenario_b]"
  have unit: "\<forall>p\<in>set ?preds. length p = 2 \<and> unit_vector p"
    using scenario_float by (simp add: unit_vector_def scenario_a_def scenario_b_def)
  have "\<exists>idx avg.
           np_mean_axis0 ?preds = Inr avg \<and> length avg = 2 \<and>
           (\<forall>j<2. avg ! j = round32 (sum32 (map (\<lambda>p. p ! j) ?preds) / real (length ?preds))) \<and>
           idx < 2 \<and>
           (\<forall>j<2. avg ! j \<le> avg ! idx) \<and>
           (\<forall>j<idx. avg ! j < avg ! idx) \<and>
           predict_image (load_img example_runtime) ?models (JObj []) [7] =
             (case resolve_label (JObj []) idx of
                Inl e \<Rightarrow> Inl e
              | Inr label \<Rightarrow> Inr (label, avg ! idx))"
  proof (rule predict_image_argmax_of_float32_mean [where img = "[7]"])
    show "load_img example_runtime [7] (224, 224) = Some [7]" by (simp add: example_load)
    show "preds_loop ?models [map (\<lambda>v. round32 (real v / 255)) [7]] = ?preds"
      by (rule preds_loop_const2)
    show "\<forall>p\<in>set ?preds. length p = 2 \<and> unit_vector p" by (rule unit)
  qed simp_all
  then obtain idx avg where mean: "np_mean_axis0 ?preds = Inr avg"
    and lt: "idx < 2"
    and ge: "\<forall>j<2. avg ! j \<le> avg ! idx"
    and res: "predict_image (load_img example_runtime) ?models (JObj []) [7] =
                (case resolve_label (JObj []) idx of
                   Inl e \<Rightarrow> Inl e
                 | Inr label \<Rightarrow> Inr (label, avg ! idx))"
    by blast
  have avg: "avg = [5033165 / 2 ^ 23, 13421773 / 2 ^ 25]" using mean by (simp add: scenario_mean)
  have "idx = 0"
  proof (rule ccontr)
    assume "idx \<noteq> 0"
    with lt have "idx = 1" by simp
    with ge [rule_format, of 0] have "avg ! 0 \<le> avg ! 1" by simp
    then show False by (simp add: avg)
  qed
  with res show ?thesis by (simp add: avg resolve_label_empty_0)
qed

text \<open>
  Claim C1 as it was stated fails: with the exact mean in place of the float32 mean, the
  index returned need not be an arg-max. For the two probability vectors below the exact
  mean is larger at position 1 than at position 0; in float32 the sum at position 1 rounds
  to one half, the two means tie, and \<^verbatim>\<open>predict_image\<close> returns index 0.
\<close>

theorem mean_argmax_counterexample:
  "prob_vector tie_vector_a \<and> prob_vector tie_vector_b \<and>
   predict_image (load_img example_runtime)
     [const_classifier tie_vector_a, const_classifier tie_vector_b] (JObj []) [7]
     = Inr (''0'', 1 / 4) \<and>
   (tie_vector_a ! 0 + tie_vector_b ! 0) / 2 < (tie_vector_a ! 1 + tie_vector_b ! 1) / 2"
proof -
  have pa: "prob_vector tie_vector_a"
    using tie_a_float by (simp add: prob_vector_def tie_vector_a_def)
  have pb: "prob_vector tie_vector_b"
    using tie_b_float by (simp add: prob_vector_def tie_vector_b_def)
  have "predict_image (load_img example_runtime)
     [const_classifier tie_vector_a, const_classifier tie_vector_b] (JObj []) [7]
     = ensemble_result (JObj []) [tie_vector_a, tie_vector_b]"
  proof (rule predict_image_ensemble [where img = "[7]"])
    show "load_img example_runtime [7] (224, 224) = Some [7]" by (simp add: example_load)
    show "preds_loop [const_classifier tie_vector_a, const_classifier tie_vector_b]
            [map (\<lambda>v. round32 (real v / 255)) [7]] = [tie_vector_a, tie_vector_b]"
      by (rule preds_loop_const2)
  qed simp_all
  also have "\<dots> = Inr (''0'', 1 / 4)"
    by (simp add: ensemble_result_def tie_mean np_argmax_def np_max_def resolve_label_empty_0)
  finally have r: "predict_image (load_img example_runtime)
     [const_classifier tie_vector_a, const_classifier tie_vector_b] (JObj []) [7]
     = Inr (''0'', 1 / 4)" .
  have "(tie_vector_a ! 0 + tie_vector_b ! 0) / 2 < (tie_vector_a ! 1 + tie_vector_b ! 1) / 2"
    by (simp add: tie_vector_a_def tie_vector_b_def)
  with pa pb r show ?thesis by simp
qed

subsection \<open>The float32 mean of probability vectors\<close>











subsection \<open>Failing classifiers\<close>




lemma predict_image_example:
  assumes "load stored (224, 224) = Some img"
  shows "predict_image load [failing_classifier, const_classifier [1 / 4, 3 / 4]] (JObj []) stored
           = Inr (''1'', 3 / 4)"
    and "predict_image load [const_classifier [1 / 4, 3 / 4]] (JObj []) stored = Inr (''1'', 3 / 4)"
proof -
  have m: "np_mean_axis0 [[1 / 4, 3 / 4]] = Inr [1 / 4, 3 / 4]"
    by (rule np_mean_axis0_single) (simp add: float_facts)
  have e: "ensemble_result (JObj []) [[1 / 4, 3 / 4]] = Inr (''1'', 3 / 4)"
    by (simp add: ensemble_result_def m np_argmax_def np_max_def resolve_label_empty_1)
  show "predict_image load [failing_classifier, const_classifier [1 / 4, 3 / 4]] (JObj []) stored
           = Inr (''1'', 3 / 4)"
    using assms e by (simp add: predict_image_def failing_classifier_def const_classifier_def)
  show "predict_image load [const_classifier [1 / 4, 3 / 4]] (JObj []) stored = Inr (''1'', 3 / 4)"
    using assms e by (simp add: predict_image_def const_classifier_def)
qed



subsection \<open>The primary strategy, the fallback and the callers\<close>



text \<open>
  Claim C4, where the source departs from it. rembg is installed and \<^verbatim>\<open>remove\<close> returns;
  \<^verbatim>\<open>open(img_path, "wb")\<close> empties the file and \<^verbatim>\<open>o.write\<close> raises (the disk is full).
  The exception reaches line 86, the fallback reads an empty file, \<^verbatim>\<open>cv2.imread\<close> gives
  no image and line 93 returns False. Both strategies have failed and the original image
  is gone: the caller's \<^verbatim>\<open>predict_image\<close> cannot decode the file, where on the original
  it returns a label.
\<close>

theorem both_strategies_fail_original_lost:
  "rembg_primary disk_full_runtime \<lparr>content = [7], writes = 0\<rparr> =
     Inl \<lparr>content = [], writes = 0\<rparr> \<and>
   cv2_fallback disk_full_runtime \<lparr>content = [], writes = 0\<rparr> =
     (False, \<lparr>content = [], writes = 0\<rparr>) \<and>
   preprocess_image_if_available disk_full_runtime \<lparr>content = [7], writes = 0\<rparr> =
     (False, \<lparr>content = [], writes = 0\<rparr>) \<and>
   upload_predict disk_full_runtime [const_classifier [1 / 4, 3 / 4]] (JObj [])
     \<lparr>content = [7], writes = 0\<rparr> =
     (\<lparr>content = [], writes = 0\<rparr>, Inl ImageLoadError) \<and>
   predict_image (load_img disk_full_runtime) [const_classifier [1 / 4, 3 / 4]] (JObj []) [7] =
     Inr (''1'', 3 / 4)"
proof -
  have p: "rembg_primary disk_full_runtime \<lparr>content = [7], writes = 0\<rparr> =
     Inl \<lparr>content = [], writes = 0\<rparr>"
    by (simp add: rembg_primary_def disk_full_runtime_def example_defs)
  have fb: "cv2_fallback disk_full_runtime \<lparr>content = [], writes = 0\<rparr> =
     (False, \<lparr>content = [], writes = 0\<rparr>)"
    by (simp add: cv2_fallback_def disk_full_runtime_def example_defs)
  have pre: "preprocess_image_if_available disk_full_runtime \<lparr>content = [7], writes = 0\<rparr> =
     (False, \<lparr>content = [], writes = 0\<rparr>)"
    by (simp add: preprocess_image_if_available_def p fb)
  have up: "upload_predict disk_full_runtime [const_classifier [1 / 4, 3 / 4]] (JObj [])
     \<lparr>content = [7], writes = 0\<rparr> =
     (\<lparr>content = [], writes = 0\<rparr>, Inl ImageLoadError)"
  proof -
    have "load_img disk_full_runtime [] (224, 224) = None"
      by (simp add: disk_full_runtime_def example_defs)
    then have "predict_image (load_img disk_full_runtime) [const_classifier [1 / 4, 3 / 4]] (JObj []) []
                 = Inl ImageLoadError"
      by (simp add: predict_image_def)
    then show ?thesis by (simp add: upload_predict_eq pre)
  qed
  have "load_img disk_full_runtime [7] (224, 224) = Some [7]"
    by (simp add: disk_full_runtime_def example_defs)
  then have "predict_image (load_img disk_full_runtime) [const_classifier [1 / 4, 3 / 4]] (JObj []) [7] =
     Inr (''1'', 3 / 4)"
    by (rule predict_image_example(2))
  with p fb pre up show ?thesis by simp
qed

text \<open>
  Claim C9, where the source departs from it, in both directions. In
  \<open>read_only_runtime\<close> the fallback reaches line 104, \<^verbatim>\<open>cv2.imwrite\<close> returns False and
  stores nothing, line 104 drops that result and line 105 returns True: True with the
  file never written. In \<open>disk_full_runtime\<close> the write of line 84 raises after line 83
  emptied the file, and the fallback returns False: False with the content changed.
\<close>

theorem preprocess_return_value_mismatch:
  "preprocess_image_if_available read_only_runtime \<lparr>content = [7], writes = 0\<rparr> =
     (True, \<lparr>content = [7], writes = 0\<rparr>) \<and>
   fst (preprocess_image_if_available disk_full_runtime \<lparr>content = [7], writes = 0\<rparr>) = False \<and>
   content (snd (preprocess_image_if_available disk_full_runtime \<lparr>content = [7], writes = 0\<rparr>))
     = []"
proof -
  have "preprocess_image_if_available read_only_runtime \<lparr>content = [7], writes = 0\<rparr> =
     (True, \<lparr>content = [7], writes = 0\<rparr>)"
    by (simp add: preprocess_image_if_available_def rembg_primary_def cv2_fallback_def
        read_only_runtime_def example_defs find_leaf_contours_def crop_largest_def
        crop_box_def py_slice_def cv2_consts)
  moreover have "preprocess_image_if_available disk_full_runtime \<lparr>content = [7], writes = 0\<rparr> =
     (False, \<lparr>content = [], writes = 0\<rparr>)"
    by (simp add: preprocess_image_if_available_def rembg_primary_def cv2_fallback_def
        disk_full_runtime_def example_defs)
  ultimately show ?thesis by simp
qed

text \<open>
  Where no write fails, the value returned does tell whether the file was written: a
  fallback that returns False has not touched the file, and in an environment whose
  writes complete and whose \<^verbatim>\<open>cv2.imwrite\<close> does not return False the function either
  returns False and leaves the file, or returns True and has written it once.
\<close>

lemma cv2_fallback_False_unchanged:
  "fst (cv2_fallback rt f) = False \<Longrightarrow> snd (cv2_fallback rt f) = f"
  by (auto simp: cv2_fallback_def split: option.splits if_splits imwrite_result.splits)

lemma preprocess_without_write_faults:
  assumes "\<forall>new left. fs_write rt new \<noteq> WriteRaises left"
    and "\<forall>cv crop. cv2 rt = Some cv \<longrightarrow> imwrite cv crop \<noteq> ImwriteFalse"
  shows "preprocess_image_if_available rt f = (False, f) \<or>
         (\<exists>new. preprocess_image_if_available rt f = (True, write_file f new))"
proof (cases "rembg_primary rt f")
  case (Inr f')
  then show ?thesis
    by (auto simp: preprocess_image_if_available_def rembg_primary_def
        split: option.splits write_result.splits)
next
  case (Inl f0)
  then have "f0 = f"
    using assms(1) by (auto simp: rembg_primary_def split: option.splits write_result.splits)
  with Inl have "preprocess_image_if_available rt f = cv2_fallback rt f"
    by (simp add: preprocess_image_if_available_def)
  moreover have "cv2_fallback rt f = (False, f) \<or> (\<exists>new. cv2_fallback rt f = (True, write_file f new))"
    using assms(2)
    by (auto simp: cv2_fallback_def split: option.splits if_splits imwrite_result.splits)
  ultimately show ?thesis by simp
qed

end
